theory Spec2Isabelle
  imports Complex_Main
begin

section \<open>Python values used by the program\<close>

text \<open>
  A Python \<open>str\<close> is modelled as a \<open>string\<close>, one \<open>char\<close> per code point, so the
  model covers the code points U+0000 to U+00FF. Slicing and \<open>len\<close> count code points
  in Python, and \<open>take\<close> and \<open>length\<close> count \<open>char\<close>s here.
\<close>

subsection \<open>Exceptions\<close>

text \<open>
  Every exception that a modelled statement can raise is a value. A function that can
  raise returns \<open>exn + 'a\<close>, with \<open>Inl\<close> for the exception.
\<close>

datatype exn =
    ValueError
  | OverflowError
  | TypeError
  | JSONDecodeError
  | IntegrityError
  | SlackApiError
  | External bool

subsection \<open>String methods\<close>

definition newline :: char where
  "newline = CHR 0x0A"

definition py_isspace :: "char \<Rightarrow> bool" where
  \<comment> \<open>\<open>str.isspace\<close> on U+0000..U+00FF: TAB..CR, FS..US, SPACE, NEL, NBSP.\<close>
  "py_isspace c =
     (let n = (of_char c :: nat)
      in (9 \<le> n \<and> n \<le> 13) \<or> (28 \<le> n \<and> n \<le> 32) \<or> n = 133 \<or> n = 160)"

definition py_strip :: "string \<Rightarrow> string" where
  \<comment> \<open>\<open>s.strip()\<close>\<close>
  "py_strip s = rev (dropWhile py_isspace (rev (dropWhile py_isspace s)))"

fun py_split :: "char \<Rightarrow> string \<Rightarrow> string list" where
  \<comment> \<open>\<open>s.split(sep)\<close> for a one-character separator; never the empty list.\<close>
  "py_split sep [] = [[]]"
| "py_split sep (c # cs) =
     (if c = sep then [] # py_split sep cs
      else (case py_split sep cs of
              [] \<Rightarrow> [[c]]
            | l # ls \<Rightarrow> (c # l) # ls))"

definition startswith :: "string \<Rightarrow> string \<Rightarrow> bool" where
  \<comment> \<open>\<open>s.startswith(p)\<close>, written \<open>startswith p s\<close>\<close>
  "startswith p s = (take (length p) s = p)"

function py_replace :: "string \<Rightarrow> string \<Rightarrow> string \<Rightarrow> string" where
  \<comment> \<open>\<open>s.replace(old, new)\<close> for a non-empty \<open>old\<close>: the occurrences are replaced
      from the left and do not overlap.\<close>
  "py_replace old new [] = []"
| "py_replace old new (c # cs) =
     (if old \<noteq> [] \<and> startswith old (c # cs)
      then new @ py_replace old new (drop (length old) (c # cs))
      else c # py_replace old new cs)"
  by pat_completeness auto
termination
  by (relation "measure (\<lambda>(old, new, s). length s)") auto

fun py_join :: "string \<Rightarrow> string list \<Rightarrow> string" where
  \<comment> \<open>\<open>sep.join(xs)\<close>\<close>
  "py_join sep [] = []"
| "py_join sep [x] = x"
| "py_join sep (x # y # ys) = x @ sep @ py_join sep (y # ys)"

subsection \<open>\<open>int(s)\<close> and the conversion of an \<open>int\<close> to a \<open>float\<close>\<close>

definition py_isdigit :: "char \<Rightarrow> bool" where
  "py_isdigit c = (let n = (of_char c :: nat) in 48 \<le> n \<and> n \<le> 57)"

definition digit_val :: "char \<Rightarrow> nat" where
  "digit_val c = (of_char c :: nat) - 48"

text \<open>
  The digits of an integer literal: at least one digit, single underscores only between
  two digits. The flag tells whether the previous character was a digit; the result is
  the value and the number of digits read.
\<close>

fun int_digits :: "bool \<Rightarrow> nat \<Rightarrow> nat \<Rightarrow> string \<Rightarrow> (nat \<times> nat) option" where
  "int_digits prev acc k [] = (if prev then Some (acc, k) else None)"
| "int_digits prev acc k (c # cs) =
     (if py_isdigit c then int_digits True (10 * acc + digit_val c) (Suc k) cs
      else if c = CHR ''_'' \<and> prev then int_digits False acc k cs
      else None)"

definition int_isspace :: "char \<Rightarrow> bool" where
  \<comment> \<open>The characters \<open>int\<close> skips around the digits, on U+0000..U+00FF: TAB..CR,
      SPACE, NEL, NBSP. Unlike \<open>str.strip\<close>, it does not skip FS..US.\<close>
  "int_isspace c =
     (let n = (of_char c :: nat)
      in (9 \<le> n \<and> n \<le> 13) \<or> n = 32 \<or> n = 133 \<or> n = 160)"

definition int_strip :: "string \<Rightarrow> string" where
  "int_strip s = rev (dropWhile int_isspace (rev (dropWhile int_isspace s)))"

definition py_int :: "nat \<Rightarrow> string \<Rightarrow> exn + int" where
  \<comment> \<open>\<open>int(s)\<close> in base 10: surrounding whitespace, one optional sign, the digits.
      \<open>max_str_digits\<close> is the interpreter's limit on the number of digits
      (\<open>sys.get_int_max_str_digits()\<close>, 0 for no limit).\<close>
  "py_int max_str_digits s =
     (let t = int_strip s;
          neg = (case t of c # cs \<Rightarrow> c = CHR ''-'' | [] \<Rightarrow> False);
          ds = (case t of c # cs \<Rightarrow> if c = CHR ''-'' \<or> c = CHR ''+'' then cs else t | [] \<Rightarrow> t)
      in case int_digits False 0 0 ds of
           None \<Rightarrow> Inl ValueError
         | Some (v, k) \<Rightarrow>
             if 0 < max_str_digits \<and> max_str_digits < k then Inl ValueError
             else Inr (if neg then - int v else int v))"

definition float_of_int :: "int \<Rightarrow> exn + real" where
  \<comment> \<open>The conversion that \<open>float - int\<close> performs on its right operand: an \<open>int\<close>
      that rounds to \<open>2 ^ 1024\<close> or beyond raises OverflowError. The doubles are
      modelled by the reals they denote, without rounding.\<close>
  "float_of_int n =
     (if 2 ^ 1024 - 2 ^ 970 \<le> \<bar>n\<bar> then Inl OverflowError else Inr (real_of_int n))"

definition is_ascii :: "string \<Rightarrow> bool" where
  "is_ascii s = list_all (\<lambda>c. (of_char c :: nat) < 128) s"

definition compare_digest :: "string \<Rightarrow> string \<Rightarrow> exn + bool" where
  \<comment> \<open>\<open>hmac.compare_digest\<close> on two \<open>str\<close>: both must be ASCII.\<close>
  "compare_digest a b = (if is_ascii a \<and> is_ascii b then Inr (a = b) else Inl TypeError)"

definition truthy :: "string option \<Rightarrow> bool" where
  \<comment> \<open>The truth value of an \<open>Optional[str]\<close>: neither \<open>None\<close> nor \<open>""\<close>.\<close>
  "truthy s = (case s of None \<Rightarrow> False | Some t \<Rightarrow> t \<noteq> [])"

definition isinstance_ValueError :: "exn \<Rightarrow> bool" where
  \<comment> \<open>\<open>json.JSONDecodeError\<close> and pydantic's \<open>ValidationError\<close> derive from
      \<open>ValueError\<close>; \<open>External v\<close> stands for an exception of a client library, \<open>v\<close>
      telling whether its class derives from \<open>ValueError\<close>.\<close>
  "isinstance_ValueError e =
     (case e of ValueError \<Rightarrow> True | JSONDecodeError \<Rightarrow> True | External v \<Rightarrow> v | _ \<Rightarrow> False)"

section \<open>config.py and schema.py\<close>

record config =
  SLACK_SIGNING_SECRET :: string
  CACHE_EXPIRY_DAYS :: int
  AI_PROVIDER :: string
  APOLLO_SEQUENCE_ID :: string

datatype SignalType = NEW_LANG_FILE | OPEN_PR | I18N_DEPENDENCY | LOCALE_DIRECTORY | TRANSLATION_CONFIG

fun signal_type_value :: "SignalType \<Rightarrow> string" where
  "signal_type_value NEW_LANG_FILE = ''NEW_LANG_FILE''"
| "signal_type_value OPEN_PR = ''OPEN_PR''"
| "signal_type_value I18N_DEPENDENCY = ''I18N_DEPENDENCY''"
| "signal_type_value LOCALE_DIRECTORY = ''LOCALE_DIRECTORY''"
| "signal_type_value TRANSLATION_CONFIG = ''TRANSLATION_CONFIG''"

record RepoRadarPayload =
  p_company :: string
  p_domain :: string
  signal_type :: SignalType
  p_signal_summary :: string
  languages :: "string list option"
  author :: "string option"
  url :: "string option"

record ApolloContact =
  c_id :: string
  first_name :: "string option"
  last_name :: "string option"
  name :: "string option"
  title :: "string option"
  email :: "string option"
  linkedin_url :: "string option"
  organization_name :: "string option"

definition display_name :: "ApolloContact \<Rightarrow> string" where
  "display_name c =
     (if truthy (name c) then the (name c)
      else if truthy (first_name c) \<and> truthy (last_name c)
      then the (first_name c) @ '' '' @ the (last_name c)
      else if truthy (first_name c) then the (first_name c)
      else if truthy (last_name c) then the (last_name c)
      else ''Unknown'')"

text \<open>
  Points in time (\<open>datetime.now()\<close>, the timestamps of the tables) are numbers of
  microseconds; the ISO text a timestamp is stored as is not modelled.
\<close>

type_synonym datetime = int

record ApprovalRequest =
  ar_id :: string
  company :: string
  domain :: string
  signal_summary :: string
  contact_id :: string
  contact_name :: string
  contact_title :: "string option"
  contact_email :: "string option"
  personalized_subject :: string
  personalized_email :: string
  i18n_signals :: string
  slack_message_ts :: "string option"
  status :: string
  created_at :: "datetime option"

section \<open>storage.py\<close>

text \<open>
  The two tables, each a map from its primary key to a row. A row of
  \<open>approval_queue\<close> holds the columns of an \<open>ApprovalRequest\<close> and \<open>updated_at\<close>.
  The tables exist (\<open>init_db\<close> has run) and SQLite itself does not fail.
\<close>

record cache_row =
  contacts_json :: string
  fetched_at :: datetime

record queue_row =
  req :: ApprovalRequest
  updated_at :: datetime

record db =
  company_cache :: "string \<rightharpoonup> cache_row"
  approval_queue :: "string \<rightharpoonup> queue_row"

definition init_db :: db where
  "init_db = \<lparr>company_cache = Map.empty, approval_queue = Map.empty\<rparr>"

text \<open>
  The functions of the \<open>json\<close>, \<open>hmac\<close> and \<open>hashlib\<close> modules are parameters of the
  model, as is the interpreter's limit on the digits of an integer literal.
  \<open>hmac_sha256_hexdigest key msg\<close> is
  \<open>hmac.new(key.encode(), msg.encode(), hashlib.sha256).hexdigest()\<close>.
\<close>

record lib =
  json_dumps :: "ApolloContact list \<Rightarrow> string"
  json_loads :: "string \<Rightarrow> exn + ApolloContact list"
  hmac_sha256_hexdigest :: "string \<Rightarrow> string \<Rightarrow> string"
  int_max_str_digits :: nat

definition timedelta_days :: "int \<Rightarrow> exn + int" where
  \<comment> \<open>\<open>timedelta(days=n)\<close> in microseconds; the magnitude of \<open>n\<close> is at most 999999999.\<close>
  "timedelta_days n =
     (if \<bar>n\<bar> \<le> 999999999 then Inr (n * 86400000000) else Inl OverflowError)"

text \<open>
  Each function below is one \<open>db_transaction\<close>: it returns its result and the database
  as committed, or the exception and the database as it was (rolled back).
\<close>

definition get_cached_contacts ::
  "lib \<Rightarrow> config \<Rightarrow> datetime \<Rightarrow> db \<Rightarrow> string \<Rightarrow> (exn + ApolloContact list option) \<times> db" where
  "get_cached_contacts lb cfg now d dom_name =
     (case company_cache d dom_name of
        None \<Rightarrow> (Inr None, d)
      | Some row \<Rightarrow>
          (case timedelta_days (CACHE_EXPIRY_DAYS cfg) of
             Inl e \<Rightarrow> (Inl e, d)
           | Inr expiry \<Rightarrow>
               if now - fetched_at row > expiry
               then (Inr None, d\<lparr>company_cache := (company_cache d)(dom_name := None)\<rparr>)
               else (case json_loads lb (contacts_json row) of
                       Inl e \<Rightarrow> (Inl e, d)
                     | Inr contacts \<Rightarrow> (Inr (Some contacts), d))))"

definition cache_contacts ::
  "lib \<Rightarrow> datetime \<Rightarrow> db \<Rightarrow> string \<Rightarrow> ApolloContact list \<Rightarrow> (exn + unit) \<times> db" where
  "cache_contacts lb now d dom_name contacts =
     (Inr (),
      d\<lparr>company_cache := (company_cache d)
           (dom_name \<mapsto> \<lparr>contacts_json = json_dumps lb contacts, fetched_at = now\<rparr>)\<rparr>)"

definition save_approval_request ::
  "datetime \<Rightarrow> datetime \<Rightarrow> db \<Rightarrow> ApprovalRequest \<Rightarrow> (exn + unit) \<times> db" where
  \<comment> \<open>\<open>sql_now\<close> is SQLite's \<open>CURRENT_TIMESTAMP\<close>, the default of \<open>updated_at\<close>.\<close>
  "save_approval_request now sql_now d request =
     (if approval_queue d (ar_id request) \<noteq> None then (Inl IntegrityError, d)
      else (Inr (),
            d\<lparr>approval_queue := (approval_queue d)
                 (ar_id request \<mapsto>
                    \<lparr>req = request\<lparr>created_at := Some now\<rparr>, updated_at = sql_now\<rparr>)\<rparr>))"

definition get_approval_request :: "db \<Rightarrow> string option \<Rightarrow> ApprovalRequest option" where
  \<comment> \<open>A \<open>request_id\<close> of \<open>None\<close> is SQL \<open>NULL\<close>, which equals no id.\<close>
  "get_approval_request d request_id =
     (case request_id of
        None \<Rightarrow> None
      | Some i \<Rightarrow> map_option req (approval_queue d i))"

definition update_approval_status ::
  "datetime \<Rightarrow> db \<Rightarrow> string \<Rightarrow> string \<Rightarrow> string option \<Rightarrow> (exn + unit) \<times> db" where
  \<comment> \<open>An \<open>UPDATE\<close> whose \<open>WHERE\<close> matches no row changes nothing and is no error.\<close>
  "update_approval_status now d request_id new_status slack_ts =
     (case approval_queue d request_id of
        None \<Rightarrow> (Inr (), d)
      | Some row \<Rightarrow>
          (Inr (),
           d\<lparr>approval_queue := (approval_queue d)
                (request_id \<mapsto>
                   (if truthy slack_ts
                    then \<lparr>req = (req row)\<lparr>status := new_status, slack_message_ts := slack_ts\<rparr>,
                          updated_at = now\<rparr>
                    else \<lparr>req = (req row)\<lparr>status := new_status\<rparr>, updated_at = now\<rparr>))\<rparr>))"


definition update_approval_email ::
  "datetime \<Rightarrow> db \<Rightarrow> string \<Rightarrow> string \<Rightarrow> string \<Rightarrow> (exn + unit) \<times> db" where
  \<comment> \<open>No handler calls it. \<open>get_pending_requests\<close>, which no handler calls either and
      which writes nothing, is not modelled.\<close>
  "update_approval_email now d rid subject body =
     (case approval_queue d rid of
        None \<Rightarrow> (Inr (), d)
      | Some row \<Rightarrow>
          (Inr (),
           d\<lparr>approval_queue := (approval_queue d)
                (rid \<mapsto>
                   \<lparr>req = (req row)\<lparr>personalized_subject := subject, personalized_email := body\<rparr>,
                    updated_at = now\<rparr>)\<rparr>))"

section \<open>email_gen.py\<close>

subsection \<open>\<open>_parse_email_response\<close>\<close>

text \<open>
  The \<open>for line in lines\<close> loop, with the three variables it updates
  (\<open>subject\<close>, \<open>body_lines\<close>, \<open>in_body\<close>) as the state.
\<close>

fun parse_loop :: "string list \<Rightarrow> string \<times> string list \<times> bool \<Rightarrow> string \<times> string list \<times> bool" where
  "parse_loop [] st = st"
| "parse_loop (line # rest) (subject, body_lines, in_body) =
     (if startswith ''SUBJECT:'' line
      then parse_loop rest (py_strip (py_replace ''SUBJECT:'' '''' line), body_lines, in_body)
      else if startswith ''BODY:'' line
      then parse_loop rest (subject, body_lines, True)
      else if in_body
      then parse_loop rest (subject, body_lines @ [line], in_body)
      else parse_loop rest (subject, body_lines, in_body))"

definition parse_email_response :: "string \<Rightarrow> string \<times> string" where
  "parse_email_response response =
     (let lines = py_split newline (py_strip response) in
      case parse_loop lines ('''', [], False) of
        (subject, body_lines, in_body) \<Rightarrow>
          let body = py_strip (py_join [newline] body_lines) in
          if subject = [] \<or> body = []
          then (if subject = [] \<and> lines \<noteq> []
                then (case lines of l # ls \<Rightarrow> take 50 l | [] \<Rightarrow> subject)
                else subject,
                if body = [] then response else body)
          else (subject, body))"

subsection \<open>\<open>format_i18n_signals\<close>\<close>

definition format_i18n_signals :: "RepoRadarPayload \<Rightarrow> string" where
  "format_i18n_signals payload =
     py_join '' | ''
       ([''Signal: '' @ signal_type_value (signal_type payload),
         ''Summary: '' @ p_signal_summary payload]
        @ (case languages payload of
             None \<Rightarrow> []
           | Some ls \<Rightarrow> if ls = [] then [] else [''Languages: '' @ py_join '', '' ls])
        @ (if truthy (url payload) then [''URL: '' @ the (url payload)] else [])
        @ (if truthy (author payload) then [''Author: '' @ the (author payload)] else []))"

section \<open>The outside world and the effects of a handler\<close>

text \<open>
  A call of an external service (Apollo, the AI provider, Slack) is recorded in a trace,
  and what the service answers is given by the \<open>world\<close> of the handler's run: the
  exception the client raises, or the part of the answer the program reads. The world
  also holds the clocks and the identifier \<open>uuid.uuid4()\<close> draws. One run reads
  \<open>datetime.now()\<close> as one value.
\<close>

datatype call =
    ApolloSearch string
  | CreateContact "string option" string string string "string option" "(string \<times> string) list"
  | AddToSequence string string
  | GenerateEmail string
  | SlackPost string
  | SlackUpdate "string option" "string option" string

record world =
  time_time :: real
  datetime_now :: datetime
  sql_now :: datetime
  uuid4 :: string
  apollo_search :: "exn + ApolloContact list"
  apollo_create_contact :: "exn + string option"
  apollo_add_to_sequence :: "exn + unit"
  ai_response :: "exn + string"
  chat_postMessage :: "exn + string"
  chat_update :: "exn + unit"

type_synonym state = "db \<times> call list"

type_synonym 'a prog = "state \<Rightarrow> (exn + 'a) \<times> state"

definition ret :: "'a \<Rightarrow> 'a prog" where
  "ret x s = (Inr x, s)"

definition py_raise :: "exn \<Rightarrow> 'a prog" where
  "py_raise e s = (Inl e, s)"

definition then_do :: "'a prog \<Rightarrow> ('a \<Rightarrow> 'b prog) \<Rightarrow> 'b prog" where
  \<comment> \<open>One statement after another: an exception ends the sequence, and what was
      committed or sent before it stays.\<close>
  "then_do m f s = (case m s of (Inl e, s') \<Rightarrow> (Inl e, s') | (Inr x, s') \<Rightarrow> f x s')"

definition try_except :: "'a prog \<Rightarrow> (exn \<Rightarrow> 'a prog) \<Rightarrow> 'a prog" where
  \<comment> \<open>\<open>try: m  except Exception as e: h e\<close>\<close>
  "try_except m h s = (case m s of (Inl e, s') \<Rightarrow> h e s' | (Inr x, s') \<Rightarrow> (Inr x, s'))"

definition external :: "call \<Rightarrow> exn + 'a \<Rightarrow> 'a prog" where
  "external c answer s = (answer, fst s, snd s @ [c])"

definition transaction :: "(db \<Rightarrow> (exn + 'a) \<times> db) \<Rightarrow> 'a prog" where
  "transaction f s = (case f (fst s) of (r, d') \<Rightarrow> (r, d', snd s))"

section \<open>apollo_client.py and slack_bot.py\<close>

definition search_people :: "lib \<Rightarrow> config \<Rightarrow> world \<Rightarrow> string \<Rightarrow> ApolloContact list prog" where
  \<comment> \<open>With the defaults \<open>titles=None\<close> and \<open>use_cache=True\<close>, as the program calls it.\<close>
  "search_people lb cfg w dom_name =
     then_do (transaction (\<lambda>d. get_cached_contacts lb cfg (datetime_now w) d dom_name)) (\<lambda>cached.
       case cached of
         Some (c # cs) \<Rightarrow> ret (c # cs)
       | _ \<Rightarrow>
           then_do (external (ApolloSearch dom_name) (apollo_search w)) (\<lambda>contacts.
           then_do (if contacts \<noteq> []
                    then transaction (\<lambda>d. cache_contacts lb (datetime_now w) d dom_name contacts)
                    else ret ()) (\<lambda>_.
           ret contacts)))"

definition create_contact ::
  "world \<Rightarrow> string option \<Rightarrow> string \<Rightarrow> string \<Rightarrow> string \<Rightarrow> string option \<Rightarrow>
   (string \<times> string) list \<Rightarrow> string option prog" where
  \<comment> \<open>The answer is what \<open>contact_response.get("contact", {}).get("id")\<close> reads from it.\<close>
  "create_contact w email_arg first_nm last_nm organization title_arg custom_fields =
     external (CreateContact email_arg first_nm last_nm organization title_arg custom_fields)
       (apollo_create_contact w)"

definition add_to_sequence :: "config \<Rightarrow> world \<Rightarrow> string \<Rightarrow> unit prog" where
  "add_to_sequence cfg w new_contact_id =
     external (AddToSequence new_contact_id (APOLLO_SEQUENCE_ID cfg)) (apollo_add_to_sequence w)"

definition post_approval_card :: "world \<Rightarrow> ApprovalRequest \<Rightarrow> string prog" where
  "post_approval_card w request = external (SlackPost (ar_id request)) (chat_postMessage w)"

definition update_message :: "world \<Rightarrow> string option \<Rightarrow> string option \<Rightarrow> string \<Rightarrow> unit prog" where
  \<comment> \<open>\<open>_update_message\<close> logs a \<open>SlackApiError\<close> and goes on; any other exception leaves it.\<close>
  "update_message w channel_arg ts blocks =
     try_except (external (SlackUpdate channel_arg ts blocks) (chat_update w))
       (\<lambda>e. if e = SlackApiError then ret () else py_raise e)"

definition update_card_approved ::
  "world \<Rightarrow> string option \<Rightarrow> string option \<Rightarrow> ApprovalRequest \<Rightarrow> unit prog" where
  "update_card_approved w channel_arg ts request = update_message w channel_arg ts ''APPROVED''"

definition update_card_rejected ::
  "world \<Rightarrow> string option \<Rightarrow> string option \<Rightarrow> ApprovalRequest \<Rightarrow> unit prog" where
  "update_card_rejected w channel_arg ts request = update_message w channel_arg ts ''SKIPPED''"


section \<open>email_gen.py: \<open>generate_personalized_email\<close>\<close>

definition generate_personalized_email ::
  "config \<Rightarrow> world \<Rightarrow> RepoRadarPayload \<Rightarrow> ApolloContact \<Rightarrow> (string \<times> string) prog" where
  \<comment> \<open>The prompt is not modelled: the provider's answer is the world's.\<close>
  "generate_personalized_email cfg w payload contact =
     (if AI_PROVIDER cfg = ''anthropic'' \<or> AI_PROVIDER cfg = ''gemini''
      then then_do (external (GenerateEmail (AI_PROVIDER cfg)) (ai_response w))
             (\<lambda>response_text. ret (parse_email_response response_text))
      else py_raise ValueError)"

section \<open>app.py\<close>

text \<open>
  An inbound request: its headers, its body as text, and for the interaction endpoint
  what the handler reads from the form field \<open>payload\<close> (\<open>json.loads\<close> and the
  \<open>get\<close> calls that follow it), or the exception these raise.
\<close>

record interaction =
  action_id :: "string option"
  request_id :: "string option"
  channel :: "string option"
  message_ts :: "string option"

record request =
  headers :: "string \<rightharpoonup> string"
  get_data :: string
  form_payload :: "exn + interaction"

datatype jv = Str string | ExnText exn

type_synonym response = "(string \<times> jv) list \<times> nat"

definition headers_get :: "request \<Rightarrow> string \<Rightarrow> string \<Rightarrow> string" where
  "headers_get request key dflt = (case headers request key of None \<Rightarrow> dflt | Some v \<Rightarrow> v)"

definition verify_slack_signature :: "lib \<Rightarrow> config \<Rightarrow> real \<Rightarrow> request \<Rightarrow> exn + bool" where
  \<comment> \<open>\<open>now\<close> is the value of \<open>time.time()\<close>.\<close>
  "verify_slack_signature lb cfg now request =
     (let timestamp = headers_get request ''X-Slack-Request-Timestamp'' [];
          signature = headers_get request ''X-Slack-Signature'' []
      in case py_int (int_max_str_digits lb) timestamp of
           Inl e \<Rightarrow> Inl e
         | Inr n \<Rightarrow>
             (case float_of_int n of
                Inl e \<Rightarrow> Inl e
              | Inr t \<Rightarrow>
                  if \<bar>now - t\<bar> > 60 * 5 then Inr False
                  else
                    let sig_basestring = ''v0:'' @ timestamp @ '':'' @ get_data request;
                        expected_signature =
                          ''v0='' @ hmac_sha256_hexdigest lb (SLACK_SIGNING_SECRET cfg) sig_basestring
                    in compare_digest expected_signature signature))"

definition handle_reporadar_webhook ::
  "lib \<Rightarrow> config \<Rightarrow> world \<Rightarrow> exn + RepoRadarPayload \<Rightarrow> response prog" where
  \<comment> \<open>The argument is the outcome of \<open>request.get_json()\<close> and
      \<open>RepoRadarPayload(**data)\<close>.\<close>
  "handle_reporadar_webhook lb cfg w parsed =
     try_except
       (then_do (case parsed of Inl e \<Rightarrow> py_raise e | Inr payload \<Rightarrow> ret payload) (\<lambda>payload.
        then_do (search_people lb cfg w (p_domain payload)) (\<lambda>contacts.
          case contacts of
            [] \<Rightarrow>
              ret ([(''status'', Str ''skipped''), (''reason'', Str ''no_contacts_found''),
                    (''domain'', Str (p_domain payload))], 200)
          | contact # _ \<Rightarrow>
              if \<not> truthy (email contact)
              then ret ([(''status'', Str ''skipped''), (''reason'', Str ''no_email''),
                         (''contact'', Str (display_name contact))], 200)
              else
                then_do (generate_personalized_email cfg w payload contact) (\<lambda>(subject, body).
                  let approval_request =
                        \<lparr>ar_id = uuid4 w,
                         company = p_company payload,
                         domain = p_domain payload,
                         signal_summary = p_signal_summary payload,
                         contact_id = c_id contact,
                         contact_name = display_name contact,
                         contact_title = title contact,
                         contact_email = email contact,
                         personalized_subject = subject,
                         personalized_email = body,
                         i18n_signals = format_i18n_signals payload,
                         slack_message_ts = None,
                         status = ''pending'',
                         created_at = None\<rparr>
                  in
                  then_do (transaction (\<lambda>d.
                             save_approval_request (datetime_now w) (sql_now w) d approval_request)) (\<lambda>_.
                  then_do (post_approval_card w approval_request) (\<lambda>slack_ts.
                  then_do (transaction (\<lambda>d.
                             update_approval_status (datetime_now w) d (ar_id approval_request)
                               ''pending'' (Some slack_ts))) (\<lambda>_.
                  ret ([(''status'', Str ''pending_approval''),
                        (''request_id'', Str (ar_id approval_request)),
                        (''company'', Str (p_company payload)),
                        (''contact'', Str (display_name contact))], 200))))))))
       (\<lambda>e. if isinstance_ValueError e
            then ret ([(''error'', Str ''Invalid payload''), (''details'', ExnText e)], 400)
            else ret ([(''error'', Str ''Internal server error'')], 500))"

definition split_name :: "string \<Rightarrow> string \<times> string" where
  \<comment> \<open>\<open>name_parts = s.split(" ", 1)\<close>, then \<open>name_parts[0]\<close> and
      \<open>name_parts[1] if len(name_parts) > 1 else ""\<close>.\<close>
  "split_name s =
     (takeWhile (\<lambda>c. c \<noteq> CHR '' '') s, drop 1 (dropWhile (\<lambda>c. c \<noteq> CHR '' '') s))"

definition handle_approve ::
  "config \<Rightarrow> world \<Rightarrow> ApprovalRequest \<Rightarrow> string option \<Rightarrow> string option \<Rightarrow> response prog" where
  "handle_approve cfg w request channel_arg ts =
     try_except
       (let first_nm = fst (split_name (contact_name request));
            last_nm = snd (split_name (contact_name request));
            custom_fields =
              [(''personalized_subject'', personalized_subject request),
               (''personalized_email_1'', personalized_email request),
               (''i18n_signals'', i18n_signals request)]
        in
        then_do (create_contact w (contact_email request) first_nm last_nm (company request)
                   (contact_title request) custom_fields) (\<lambda>new_contact_id.
        then_do (if truthy new_contact_id
                 then add_to_sequence cfg w (the new_contact_id)
                 else ret ()) (\<lambda>_.
        then_do (transaction (\<lambda>d.
                   update_approval_status (datetime_now w) d (ar_id request) ''approved'' None)) (\<lambda>_.
        then_do (update_card_approved w channel_arg ts request) (\<lambda>_.
        ret ([(''status'', Str ''approved'')], 200))))))
       (\<lambda>e. ret ([(''error'', ExnText e)], 500))"

definition handle_skip ::
  "world \<Rightarrow> ApprovalRequest \<Rightarrow> string option \<Rightarrow> string option \<Rightarrow> response prog" where
  "handle_skip w request channel_arg ts =
     then_do (transaction (\<lambda>d.
                update_approval_status (datetime_now w) d (ar_id request) ''skipped'' None)) (\<lambda>_.
     then_do (update_card_rejected w channel_arg ts request) (\<lambda>_.
     ret ([(''status'', Str ''skipped'')], 200)))"

definition handle_edit :: "ApprovalRequest \<Rightarrow> response prog" where
  "handle_edit request = ret ([(''status'', Str ''edit_not_implemented'')], 501)"

definition handle_regenerate ::
  "ApprovalRequest \<Rightarrow> string option \<Rightarrow> string option \<Rightarrow> response prog" where
  "handle_regenerate request channel_arg ts =
     ret ([(''status'', Str ''regenerate_not_implemented'')], 501)"

definition handle_slack_interactions :: "lib \<Rightarrow> config \<Rightarrow> world \<Rightarrow> request \<Rightarrow> response prog" where
  \<comment> \<open>The signature is verified before the \<open>try\<close>: an exception of
      \<open>verify_slack_signature\<close> leaves the handler.\<close>
  "handle_slack_interactions lb cfg w request =
     then_do (\<lambda>s. (verify_slack_signature lb cfg (time_time w) request, s)) (\<lambda>verified.
       if \<not> verified then ret ([(''error'', Str ''Invalid signature'')], 401)
       else
         try_except
           (then_do (\<lambda>s. (form_payload request, s)) (\<lambda>payload.
            then_do (transaction (\<lambda>d. (Inr (get_approval_request d (request_id payload)), d)))
              (\<lambda>found.
                 case found of
                   None \<Rightarrow> ret ([(''error'', Str ''Request not found'')], 404)
                 | Some approval_request \<Rightarrow>
                     if action_id payload = Some ''approve_lead''
                     then handle_approve cfg w approval_request (channel payload) (message_ts payload)
                     else if action_id payload = Some ''skip_lead''
                     then handle_skip w approval_request (channel payload) (message_ts payload)
                     else if action_id payload = Some ''edit_lead''
                     then handle_edit approval_request
                     else if action_id payload = Some ''regenerate_lead''
                     then handle_regenerate approval_request (channel payload) (message_ts payload)
                     else ret ([(''error'', Str ''Unknown action'')], 400))))
           (\<lambda>e. ret ([(''error'', Str ''Internal server error'')], 500)))"

section \<open>Notions the properties are stated with\<close>

subsection \<open>Integer literals\<close>

text \<open>
  The grammar of the strings \<open>int\<close> accepts in base 10, without their value: digits in
  groups separated by single underscores, after one optional sign, between optional
  whitespace (the characters of \<open>int_isspace\<close>).
\<close>

fun digit_groups :: "bool \<Rightarrow> string \<Rightarrow> bool" where
  "digit_groups prev [] = prev"
| "digit_groups prev (c # cs) =
     (if py_isdigit c then digit_groups True cs
      else c = CHR ''_'' \<and> prev \<and> digit_groups False cs)"

definition unsigned_part :: "string \<Rightarrow> string" where
  "unsigned_part t =
     (case t of c # cs \<Rightarrow> (if c = CHR ''-'' \<or> c = CHR ''+'' then cs else t) | [] \<Rightarrow> t)"

definition int_literal :: "string \<Rightarrow> bool" where
  "int_literal s = digit_groups False (unsigned_part (int_strip s))"

definition decimal_integer_string :: "string \<Rightarrow> bool" where
  \<comment> \<open>A decimal integer string in the usual sense: decimal digits, at least one, after
      one optional sign.\<close>
  "decimal_integer_string s = (unsigned_part s \<noteq> [] \<and> list_all py_isdigit (unsigned_part s))"

subsection \<open>Calls of the CRM\<close>

fun is_crm_call :: "call \<Rightarrow> bool" where
  "is_crm_call (CreateContact e f l org t cf) = True"
| "is_crm_call (AddToSequence i sq) = True"
| "is_crm_call c = False"

fun is_create_contact :: "call \<Rightarrow> bool" where
  "is_create_contact (CreateContact e f l org t cf) = True"
| "is_create_contact c = False"

definition stored_status :: "db \<Rightarrow> string \<Rightarrow> string option" where
  "stored_status d rid = map_option (\<lambda>row. status (req row)) (approval_queue d rid)"

subsection \<open>Executions of the program\<close>

text \<open>
  An execution handles inbound requests one after another, from the empty store: each is
  a webhook of RepoRadar or an interaction of Slack, with the world of its run.
\<close>

datatype event =
    Webhook world "exn + RepoRadarPayload"
  | Interaction world request

fun run_event :: "lib \<Rightarrow> config \<Rightarrow> event \<Rightarrow> state \<Rightarrow> state" where
  "run_event lb cfg (Webhook w parsed) s = snd (handle_reporadar_webhook lb cfg w parsed s)"
| "run_event lb cfg (Interaction w request) s = snd (handle_slack_interactions lb cfg w request s)"

fun run_events :: "lib \<Rightarrow> config \<Rightarrow> event list \<Rightarrow> state \<Rightarrow> state" where
  "run_events lb cfg [] s = s"
| "run_events lb cfg (ev # evs) s = run_events lb cfg evs (run_event lb cfg ev s)"

definition written_status :: "string \<Rightarrow> bool" where
  "written_status st = (st = ''pending'' \<or> st = ''approved'' \<or> st = ''skipped'')"

subsection \<open>Two deliveries of one approval, interleaved\<close>

text \<open>
  The approval of a verified interaction, cut into its atomic steps: each step is one
  transaction of the store or one call of an external service. A delivery stands before
  one of the steps, with the local variables it has then, or it has returned a response.
\<close>

datatype approve_pc =
    A_Start
  | A_Fetched ApprovalRequest
  | A_Created "string option" ApprovalRequest
  | A_Enrolled ApprovalRequest
  | A_Updated ApprovalRequest
  | A_Done response

fun approve_step :: "config \<Rightarrow> world \<Rightarrow> interaction \<Rightarrow> approve_pc \<Rightarrow> state \<Rightarrow> approve_pc \<times> state" where
  "approve_step cfg w p A_Start s =
     (case get_approval_request (fst s) (request_id p) of
        None \<Rightarrow> (A_Done ([(''error'', Str ''Request not found'')], 404), s)
      | Some r \<Rightarrow> (A_Fetched r, s))"
| "approve_step cfg w p (A_Fetched r) s =
     (case create_contact w (contact_email r) (fst (split_name (contact_name r)))
             (snd (split_name (contact_name r))) (company r) (contact_title r)
             [(''personalized_subject'', personalized_subject r),
              (''personalized_email_1'', personalized_email r),
              (''i18n_signals'', i18n_signals r)] s of
        (Inl e, s') \<Rightarrow> (A_Done ([(''error'', ExnText e)], 500), s')
      | (Inr new_contact_id, s') \<Rightarrow> (A_Created new_contact_id r, s'))"
| "approve_step cfg w p (A_Created new_contact_id r) s =
     (if truthy new_contact_id
      then (case add_to_sequence cfg w (the new_contact_id) s of
              (Inl e, s') \<Rightarrow> (A_Done ([(''error'', ExnText e)], 500), s')
            | (Inr u, s') \<Rightarrow> (A_Enrolled r, s'))
      else (A_Enrolled r, s))"
| "approve_step cfg w p (A_Enrolled r) s =
     (case transaction (\<lambda>d. update_approval_status (datetime_now w) d (ar_id r) ''approved'' None) s of
        (Inl e, s') \<Rightarrow> (A_Done ([(''error'', ExnText e)], 500), s')
      | (Inr u, s') \<Rightarrow> (A_Updated r, s'))"
| "approve_step cfg w p (A_Updated r) s =
     (case update_card_approved w (channel p) (message_ts p) r s of
        (Inl e, s') \<Rightarrow> (A_Done ([(''error'', ExnText e)], 500), s')
      | (Inr u, s') \<Rightarrow> (A_Done ([(''status'', Str ''approved'')], 200), s'))"
| "approve_step cfg w p (A_Done resp) s = (A_Done resp, s)"

fun is_done :: "approve_pc \<Rightarrow> bool" where
  "is_done (A_Done resp) = True"
| "is_done pc = False"

text \<open>
  A schedule says which of the two deliveries takes the next step (\<open>True\<close> the first).
  Both deliveries carry the same interaction; each has the world of its own run.
\<close>

fun run_schedule ::
  "config \<Rightarrow> world \<Rightarrow> world \<Rightarrow> interaction \<Rightarrow> bool list \<Rightarrow>
   approve_pc \<times> approve_pc \<times> state \<Rightarrow> approve_pc \<times> approve_pc \<times> state" where
  "run_schedule cfg w1 w2 p [] c = c"
| "run_schedule cfg w1 w2 p (b # bs) (pc1, pc2, s) =
     (if b
      then (case approve_step cfg w1 p pc1 s of
              (pc1', s') \<Rightarrow> run_schedule cfg w1 w2 p bs (pc1', pc2, s'))
      else (case approve_step cfg w2 p pc2 s of
              (pc2', s') \<Rightarrow> run_schedule cfg w1 w2 p bs (pc1, pc2', s')))"

definition create_contact_calls :: "state \<Rightarrow> nat" where
  "create_contact_calls s = length (filter is_create_contact (snd s))"

subsection \<open>The statuses in the store\<close>

definition status_inv :: "db \<Rightarrow> bool" where
  \<comment> \<open>Every stored request has one of the three statuses the program writes.\<close>
  "status_inv d = (\<forall>i row. approval_queue d i = Some row \<longrightarrow> written_status (status (req row)))"

definition preserves :: "'a prog \<Rightarrow> bool" where
  "preserves m = (\<forall>s. status_inv (fst s) \<longrightarrow> status_inv (fst (snd (m s))))"

subsection \<open>What a delivery has done so far\<close>







section \<open>Concrete values\<close>

text \<open>
  Values at which the properties below are evaluated. The digests and the JSON text are
  the ones Python's \<open>hmac\<close> and \<open>json\<close> modules compute for these inputs.
\<close>

definition example_contact :: ApolloContact where
  "example_contact =
     \<lparr>c_id = ''c1'', first_name = Some ''Ada'', last_name = Some ''Lovelace'', name = None,
      title = Some ''VP Engineering'', email = Some ''ada@acme.com'', linkedin_url = None,
      organization_name = Some ''Acme''\<rparr>"

definition example_json :: string where
  \<open>example_json = ''[{"id": "c1", "first_name": "Ada", "last_name": "Lovelace", "name": null, "title": "VP Engineering", "email": "ada@acme.com", "linkedin_url": null, "organization_name": "Acme"}]''\<close>

definition example_secret :: string where
  "example_secret = ''8f742231b10e8888abcd99yyyzzz85a5''"

definition example_body :: string where
  "example_body = ''payload=%7B%7D''"

definition huge_timestamp :: string where
  \<comment> \<open>The decimal digits of \<open>10 ^ 309\<close>\<close>
  "huge_timestamp = CHR ''1'' # replicate 309 (CHR ''0'')"

definition example_hmac :: "string \<Rightarrow> string \<Rightarrow> string" where
  "example_hmac key msg =
     (if key = example_secret \<and> msg = ''v0:1700000000:'' @ example_body
      then ''cddb1b90c3764799fa0796bdab37ea930b70cc398e12370c415cfc535b0c4432''
      else if key = example_secret \<and> msg = ''v0:'' @ huge_timestamp @ '':'' @ example_body
      then ''b8e54c57c2a34d08bd3e7d65e182418cc2650a9a08595962e2173645bae3e47f''
      else if key = example_secret \<and> msg = ''v0:1_0:'' @ example_body
      then ''3d164c7e024e064923a6be6324a972c8204292cc105930fe3fd169986d45404d''
      else replicate 64 (CHR ''0''))"

definition example_lib :: lib where
  "example_lib =
     \<lparr>json_dumps = (\<lambda>cs. if cs = [example_contact] then example_json else ''[]''),
      json_loads = (\<lambda>t. if t = example_json then Inr [example_contact]
                          else if t = ''[]'' then Inr [] else Inl JSONDecodeError),
      hmac_sha256_hexdigest = example_hmac,
      int_max_str_digits = 4300\<rparr>"

definition example_config :: config where
  "example_config =
     \<lparr>SLACK_SIGNING_SECRET = example_secret, CACHE_EXPIRY_DAYS = 7,
      AI_PROVIDER = ''anthropic'', APOLLO_SEQUENCE_ID = ''seq-1''\<rparr>"

definition example_request :: "string \<Rightarrow> ApprovalRequest" where
  \<comment> \<open>A stored request in the given status\<close>
  "example_request st =
     \<lparr>ar_id = ''r1'', company = ''Acme'', domain = ''acme.com'',
      signal_summary = ''Added fr.json'', contact_id = ''c1'', contact_name = ''Ada Lovelace'',
      contact_title = Some ''VP Engineering'', contact_email = Some ''ada@acme.com'',
      personalized_subject = ''Hello'', personalized_email = ''Dear Ada'',
      i18n_signals = ''Signal: NEW_LANG_FILE | Summary: Added fr.json'',
      slack_message_ts = Some ''1700000000.000100'', status = st, created_at = Some 0\<rparr>"

definition example_db :: "string \<Rightarrow> db" where
  \<comment> \<open>A store that holds this one request\<close>
  "example_db st =
     \<lparr>company_cache = Map.empty,
      approval_queue = [''r1'' \<mapsto> \<lparr>req = example_request st, updated_at = 0\<rparr>]\<rparr>"

definition example_world :: world where
  \<comment> \<open>A run in which every external service answers without an exception\<close>
  "example_world =
     \<lparr>time_time = 1700000012, datetime_now = 1700000012000000, sql_now = 1700000012000000,
      uuid4 = ''r1'',
      apollo_search = Inr [example_contact],
      apollo_create_contact = Inr (Some ''apollo-77''),
      apollo_add_to_sequence = Inr (),
      ai_response = Inr ''SUBJECT: Hello'',
      chat_postMessage = Inr ''1700000000.000100'',
      chat_update = Inr ()\<rparr>"

definition example_interaction :: "string \<Rightarrow> interaction" where
  "example_interaction act =
     \<lparr>action_id = Some act, request_id = Some ''r1'', channel = Some ''C1'',
      message_ts = Some ''1700000000.000100''\<rparr>"

definition signed_request :: "string \<Rightarrow> string \<Rightarrow> exn + interaction \<Rightarrow> request" where
  \<comment> \<open>A request with the given timestamp header and the signature Slack would send\<close>
  "signed_request ts body_text payload =
     \<lparr>headers = [''X-Slack-Request-Timestamp'' \<mapsto> ts,
                 ''X-Slack-Signature'' \<mapsto>
                    ''v0='' @ example_hmac example_secret (''v0:'' @ ts @ '':'' @ body_text)],
      get_data = body_text,
      form_payload = payload\<rparr>"

definition example_payload :: RepoRadarPayload where
  "example_payload =
     \<lparr>p_company = ''Acme'', p_domain = ''acme.com'', signal_type = NEW_LANG_FILE,
      p_signal_summary = ''Added fr.json'', languages = Some [''fr''], author = None,
      url = None\<rparr>"




section \<open>Properties of the response parser\<close>

lemma py_split_not_Nil: "py_split sep s \<noteq> []"
  by (induction s) (auto split: list.splits)

lemma hd_py_split: "hd (py_split sep s) = takeWhile (\<lambda>c. c \<noteq> sep) s"
  by (induction s) (auto split: list.splits simp: py_split_not_Nil)

lemma parse_loop_no_marker:
  "\<forall>l \<in> set ls. \<not> startswith ''SUBJECT:'' l \<and> \<not> startswith ''BODY:'' l \<Longrightarrow>
   parse_loop ls (subject, body_lines, False) = (subject, body_lines, False)"
  by (induction ls) auto

text \<open>
  Claim C8, as stated, fails: the parser looks for the markers in the lines of the
  \<^emph>\<open>stripped\<close> response. The response \<open>" SUBJECT: hi"\<close> is one line, which starts
  with a space and so with neither marker; the parser strips it, finds the marker and
  returns the subject \<open>"hi"\<close>, which is not the first line cut to 50 characters.
\<close>

theorem parse_fallback_counterexample:
  "py_split newline '' SUBJECT: hi'' = ['' SUBJECT: hi''] \<and>
   \<not> startswith ''SUBJECT:'' '' SUBJECT: hi'' \<and>
   \<not> startswith ''BODY:'' '' SUBJECT: hi'' \<and>
   parse_email_response '' SUBJECT: hi'' = (''hi'', '' SUBJECT: hi'') \<and>
   ''hi'' \<noteq> take 50 '' SUBJECT: hi''"
  by (simp add: newline_def startswith_def parse_email_response_def py_strip_def py_isspace_def)

text \<open>
  Claim C8, amended: when no line of the stripped response starts with \<open>SUBJECT:\<close> or
  with \<open>BODY:\<close>, the parser returns, as subject, the first line of the stripped
  response cut to 50 characters and, as body, the response as it was given. The parser
  is a total function: it has no statement that raises.
\<close>

theorem parse_fallback:
  assumes "\<forall>l \<in> set (py_split newline (py_strip response)).
             \<not> startswith ''SUBJECT:'' l \<and> \<not> startswith ''BODY:'' l"
  shows "parse_email_response response =
           (take 50 (takeWhile (\<lambda>c. c \<noteq> newline) (py_strip response)), response)"
proof -
  obtain l ls where ls: "py_split newline (py_strip response) = l # ls"
    using py_split_not_Nil [of newline "py_strip response"]
    by (cases "py_split newline (py_strip response)") auto
  have l: "l = takeWhile (\<lambda>c. c \<noteq> newline) (py_strip response)"
    using hd_py_split [of newline "py_strip response"] ls by simp
  have "parse_loop (l # ls) ([], [], False) = ([], [], False)"
    using parse_loop_no_marker [of "l # ls" "[]" "[]"] assms ls by simp
  moreover have "py_strip [] = []"
    by (simp add: py_strip_def)
  ultimately show ?thesis
    by (simp add: parse_email_response_def ls l)
qed

theorem parse_fallback_witness:
  "parse_email_response (newline # '' Hello there'' @ [newline] @ ''second line '') =
     (''Hello there'', newline # '' Hello there'' @ [newline] @ ''second line '')"
  using parse_fallback [of "newline # '' Hello there'' @ [newline] @ ''second line ''"]
  by (simp add: newline_def startswith_def py_strip_def py_isspace_def)

section \<open>Properties of the store\<close>

text \<open>
  Claim C3, as stated, fails: \<open>update_approval_status\<close> runs an \<open>UPDATE\<close> and never
  looks at the number of rows it changed. On the empty store, for an id that no row
  has, it returns without an exception and leaves the store as it was.
\<close>

theorem update_missing_id_counterexample:
  "approval_queue init_db ''no-such-id'' = None \<and>
   update_approval_status 0 init_db ''no-such-id'' ''approved'' None = (Inr (), init_db)"
  by (simp add: init_db_def update_approval_status_def)

text \<open>
  Claim C3, amended: for every request id that is not in the store,
  \<open>update_approval_status\<close> returns normally (it raises nothing) and the store is
  unchanged.
\<close>

theorem update_missing_id_returns:
  "approval_queue d rid = None \<Longrightarrow>
   update_approval_status now d rid new_status slack_ts = (Inr (), d)"
  by (simp add: update_approval_status_def)

theorem update_missing_id_returns_witness:
  "approval_queue init_db ''r1'' = None \<and>
   update_approval_status 5 init_db ''r1'' ''skipped'' (Some ''17.5'') = (Inr (), init_db)"
  using update_missing_id_returns [of init_db "''r1''" 5 "''skipped''" "Some ''17.5''"]
  by (simp add: init_db_def)

text \<open>
  Claim C5: a lookup right after \<open>cache_contacts D C\<close> returns \<open>C\<close>, and changes
  nothing. \<open>t0\<close> and \<open>t1\<close> are the readings of \<open>datetime.now()\<close> in the store and in
  the lookup; "right after" is that the time between them is within the expiry window.
  The \<open>json\<close> module is a parameter, assumed to read back what it wrote for \<open>C\<close>. The
  list need not be non-empty for this.
\<close>

theorem cache_round_trip:
  assumes "json_loads lb (json_dumps lb C) = Inr C"
      and "timedelta_days (CACHE_EXPIRY_DAYS cfg) = Inr expiry"
      and "t1 - t0 \<le> expiry"
  shows "get_cached_contacts lb cfg t1 (snd (cache_contacts lb t0 d D C)) D =
           (Inr (Some C), snd (cache_contacts lb t0 d D C))"
  using assms by (simp add: get_cached_contacts_def cache_contacts_def)

theorem cache_round_trip_witness:
  "get_cached_contacts example_lib example_config 1700000012000001
     (snd (cache_contacts example_lib 1700000012000000 init_db ''acme.com'' [example_contact]))
     ''acme.com'' =
   (Inr (Some [example_contact]),
    snd (cache_contacts example_lib 1700000012000000 init_db ''acme.com'' [example_contact]))"
  using cache_round_trip [of example_lib "[example_contact]" example_config 604800000000
                             1700000012000001 1700000012000000 init_db "''acme.com''"]
  by (simp add: example_lib_def example_config_def timedelta_days_def)

text \<open>
  Claim C6: a lookup of a domain whose entry is older than the expiry window reports no
  entry and deletes the entry; the other entries and the approval queue are untouched.
\<close>

theorem expired_entry_purged:
  assumes "company_cache d D = Some row"
      and "timedelta_days (CACHE_EXPIRY_DAYS cfg) = Inr expiry"
      and "now - fetched_at row > expiry"
  shows "fst (get_cached_contacts lb cfg now d D) = Inr None \<and>
         company_cache (snd (get_cached_contacts lb cfg now d D)) D = None \<and>
         (\<forall>D'. D' \<noteq> D \<longrightarrow>
            company_cache (snd (get_cached_contacts lb cfg now d D)) D' = company_cache d D') \<and>
         approval_queue (snd (get_cached_contacts lb cfg now d D)) = approval_queue d"
  using assms by (simp add: get_cached_contacts_def)

theorem expired_entry_purged_witness:
  "fst (get_cached_contacts example_lib example_config 604800000001
          (snd (cache_contacts example_lib 0 init_db ''acme.com'' [example_contact]))
          ''acme.com'') = Inr None \<and>
   company_cache
     (snd (get_cached_contacts example_lib example_config 604800000001
             (snd (cache_contacts example_lib 0 init_db ''acme.com'' [example_contact]))
             ''acme.com'')) ''acme.com'' = None"
  using expired_entry_purged
          [of "snd (cache_contacts example_lib 0 init_db ''acme.com'' [example_contact])"
              "''acme.com''" "\<lparr>contacts_json = example_json, fetched_at = 0\<rparr>"
              example_config 604800000000 604800000001 example_lib]
  by (simp add: example_lib_def example_config_def timedelta_days_def cache_contacts_def)

section \<open>Properties of the signature check\<close>

lemma int_digits_None_iff:
  "(int_digits prev acc k s = None) = (\<not> digit_groups prev s)"
  by (induction s arbitrary: prev acc k) auto

lemma py_int_not_literal: "\<not> int_literal s \<Longrightarrow> py_int m s = Inl ValueError"
  using int_digits_None_iff [of False 0 0 "unsigned_part (int_strip s)"]
  by (simp add: int_literal_def py_int_def unsigned_part_def Let_def)

lemma handle_raises:
  "verify_slack_signature lb cfg (time_time w) request = Inl e \<Longrightarrow>
   handle_slack_interactions lb cfg w request s = (Inl e, s)"
  by (simp add: handle_slack_interactions_def then_do_def)

lemma handle_unverified:
  "verify_slack_signature lb cfg (time_time w) request = Inr False \<Longrightarrow>
   handle_slack_interactions lb cfg w request s = (Inr ([(''error'', Str ''Invalid signature'')], 401), s)"
  by (simp add: handle_slack_interactions_def then_do_def ret_def)

text \<open>
  Claim C9, amended: when the timestamp header is absent or is not an integer literal as
  \<open>int\<close> reads it (the whitespace \<open>int\<close> skips around it, one sign, digits with single
  underscores between them), \<open>verify_slack_signature\<close> raises \<open>ValueError\<close>; the
  exception leaves \<open>handle_slack_interactions\<close>, which so returns no response, the 401
  response included, and the store and the trace of calls are as before.
\<close>

theorem bad_timestamp_raises:
  assumes "\<not> int_literal (headers_get request ''X-Slack-Request-Timestamp'' [])"
  shows "verify_slack_signature lb cfg (time_time w) request = Inl ValueError \<and>
         handle_slack_interactions lb cfg w request s = (Inl ValueError, s)"
proof -
  have "verify_slack_signature lb cfg (time_time w) request = Inl ValueError"
    using py_int_not_literal [OF assms] by (simp add: verify_slack_signature_def)
  then show ?thesis using handle_raises by simp
qed

text \<open>
  The stale path of the check: when \<open>int\<close> reads the timestamp header, the value
  converts to a \<open>float\<close> and is 301 or more seconds away from \<open>time.time()\<close>, the
  check returns \<open>False\<close> whatever the signature is, and the endpoint answers 401 and
  changes nothing.
\<close>

lemma stale_timestamp_in_range:
  assumes "py_int (int_max_str_digits lb) (headers_get request ''X-Slack-Request-Timestamp'' []) = Inr n"
      and "\<bar>n\<bar> < 2 ^ 1024 - 2 ^ 970"
      and "301 \<le> \<bar>time_time w - real_of_int n\<bar>"
  shows "verify_slack_signature lb cfg (time_time w) request = Inr False \<and>
         handle_slack_interactions lb cfg w request s =
           (Inr ([(''error'', Str ''Invalid signature'')], 401), s)"
proof -
  have "float_of_int n = Inr (real_of_int n)"
    using assms(2) by (simp add: float_of_int_def)
  then have "verify_slack_signature lb cfg (time_time w) request = Inr False"
    using assms(1,3) by (simp add: verify_slack_signature_def)
  then show ?thesis using handle_unverified by simp
qed

lemma int_digits_zeros:
  "int_digits True acc k (replicate n (CHR ''0'')) = Some (acc * 10 ^ n, k + n)"
  by (induction n arbitrary: acc k) (simp_all add: py_isdigit_def digit_val_def)

lemma strip_one_zeros:
  "int_strip (CHR ''1'' # replicate n (CHR ''0'')) = CHR ''1'' # replicate n (CHR ''0'')"
proof -
  have sp: "\<not> int_isspace (CHR ''0'')" "\<not> int_isspace (CHR ''1'')"
    by (simp_all add: int_isspace_def)
  then have "dropWhile int_isspace (replicate n (CHR ''0'') @ ''1'') = replicate n (CHR ''0'') @ ''1''"
    by (cases n) simp_all
  then show ?thesis
    unfolding int_strip_def using sp by simp
qed

lemma py_int_huge: "py_int 4300 huge_timestamp = Inr (10 ^ 309)"
  unfolding huge_timestamp_def py_int_def strip_one_zeros
  by (simp add: int_digits_zeros py_isdigit_def digit_val_def)

lemma hdr_ts: "headers_get (signed_request ts b p) ''X-Slack-Request-Timestamp'' [] = ts"
  by (simp add: headers_get_def signed_request_def)

text \<open>
  Claim C7 is what the check is written to do, and the check breaks it: the timestamp
  \<open>10 ^ 309\<close> is more than 301 seconds away from any clock, and with the correct
  signature the check does not return \<open>False\<close> as its stale path does. It raises
  \<open>OverflowError\<close>, in \<open>time.time() - int(timestamp)\<close>, and the exception leaves the
  endpoint, which answers no 401.
\<close>

theorem stale_timestamp_overflow:
  "py_int 4300 huge_timestamp = Inr (10 ^ 309) \<and>
   301 \<le> \<bar>(1700000012 :: real) - 10 ^ 309\<bar> \<and>
   headers (signed_request huge_timestamp example_body (Inr (example_interaction ''skip_lead'')))
       ''X-Slack-Signature'' =
     Some (''v0='' @ hmac_sha256_hexdigest example_lib (SLACK_SIGNING_SECRET example_config)
                      (''v0:'' @ huge_timestamp @ '':'' @ example_body)) \<and>
   verify_slack_signature example_lib example_config 1700000012
     (signed_request huge_timestamp example_body (Inr (example_interaction ''skip_lead''))) =
     Inl OverflowError \<and>
   handle_slack_interactions example_lib example_config example_world
     (signed_request huge_timestamp example_body (Inr (example_interaction ''skip_lead'')))
     (example_db ''pending'', []) =
     (Inl OverflowError, (example_db ''pending'', []))"
proof -
  have v: "verify_slack_signature example_lib example_config 1700000012
     (signed_request huge_timestamp example_body (Inr (example_interaction ''skip_lead''))) =
     Inl OverflowError"
    by (simp add: verify_slack_signature_def hdr_ts example_lib_def py_int_huge float_of_int_def)
  have t: "time_time example_world = 1700000012"
    by (simp add: example_world_def)
  have h: "handle_slack_interactions example_lib example_config example_world
     (signed_request huge_timestamp example_body (Inr (example_interaction ''skip_lead'')))
     (example_db ''pending'', []) =
     (Inl OverflowError, (example_db ''pending'', []))"
    using handle_raises [of example_lib example_config example_world _ OverflowError] v t
    by simp
  have "301 \<le> \<bar>(1700000012 :: real) - 10 ^ 309\<bar>" by simp
  then show ?thesis
    using v h
    by (simp add: py_int_huge signed_request_def example_lib_def example_config_def)
qed

lemma stale_timestamp_in_range_example:
  "headers (signed_request ''1700000000'' example_body (Inr (example_interaction ''skip_lead'')))
       ''X-Slack-Signature'' =
     Some (''v0='' @ hmac_sha256_hexdigest example_lib (SLACK_SIGNING_SECRET example_config)
                      (''v0:1700000000:'' @ example_body)) \<and>
   verify_slack_signature example_lib example_config 1700000301
     (signed_request ''1700000000'' example_body (Inr (example_interaction ''skip_lead''))) =
     Inr False \<and>
   handle_slack_interactions example_lib example_config (example_world\<lparr>time_time := 1700000301\<rparr>)
     (signed_request ''1700000000'' example_body (Inr (example_interaction ''skip_lead'')))
     (example_db ''pending'', []) =
     (Inr ([(''error'', Str ''Invalid signature'')], 401), (example_db ''pending'', []))"
proof -
  let ?r = "signed_request ''1700000000'' example_body (Inr (example_interaction ''skip_lead''))"
  let ?w = "example_world\<lparr>time_time := 1700000301\<rparr>"
  have h1: "py_int (int_max_str_digits example_lib)
              (headers_get ?r ''X-Slack-Request-Timestamp'' []) = Inr 1700000000"
    by (simp add: hdr_ts example_lib_def py_int_def int_strip_def int_isspace_def
          py_isdigit_def digit_val_def)
  have h2: "\<bar>1700000000 :: int\<bar> < 2 ^ 1024 - 2 ^ 970"
    by simp
  have h3: "301 \<le> \<bar>time_time ?w - real_of_int 1700000000\<bar>"
    by simp
  have sg: "headers ?r ''X-Slack-Signature'' =
     Some (''v0='' @ hmac_sha256_hexdigest example_lib (SLACK_SIGNING_SECRET example_config)
                      (''v0:1700000000:'' @ example_body))"
    by (simp add: signed_request_def example_lib_def example_config_def)
  show ?thesis
    using stale_timestamp_in_range [OF h1 h2 h3, of example_config "(example_db ''pending'', [])"] sg
    by simp
qed

lemma verify_example_ok:
  "verify_slack_signature example_lib example_config 1700000012
     (signed_request ''1700000000'' example_body p) = Inr True"
  by (simp add: verify_slack_signature_def hdr_ts example_lib_def example_config_def
        signed_request_def headers_get_def example_hmac_def compare_digest_def is_ascii_def
        float_of_int_def py_int_def int_strip_def int_isspace_def py_isdigit_def digit_val_def)

theorem bad_timestamp_raises_witness:
  "\<not> int_literal (headers_get \<lparr>headers = Map.empty, get_data = example_body,
                      form_payload = Inr (example_interaction ''skip_lead'')\<rparr>
                     ''X-Slack-Request-Timestamp'' []) \<and>
   handle_slack_interactions example_lib example_config example_world
     \<lparr>headers = Map.empty, get_data = example_body,
      form_payload = Inr (example_interaction ''skip_lead'')\<rparr> (example_db ''pending'', []) =
     (Inl ValueError, (example_db ''pending'', [])) \<and>
   \<not> int_literal ''soon'' \<and>
   handle_slack_interactions example_lib example_config example_world
     (signed_request ''soon'' example_body (Inr (example_interaction ''skip_lead'')))
     (example_db ''pending'', []) =
     (Inl ValueError, (example_db ''pending'', [])) \<and>
   \<not> int_literal (CHR 0x1C # ''12'') \<and>
   handle_slack_interactions example_lib example_config example_world
     (signed_request (CHR 0x1C # ''12'') example_body (Inr (example_interaction ''skip_lead'')))
     (example_db ''pending'', []) =
     (Inl ValueError, (example_db ''pending'', []))"
proof -
  let ?absent = "\<lparr>headers = Map.empty, get_data = example_body,
                  form_payload = Inr (example_interaction ''skip_lead'')\<rparr>"
  let ?soon = "signed_request ''soon'' example_body (Inr (example_interaction ''skip_lead''))"
  let ?fs = "signed_request (CHR 0x1C # ''12'') example_body
               (Inr (example_interaction ''skip_lead''))"
  have h1: "\<not> int_literal (headers_get ?absent ''X-Slack-Request-Timestamp'' [])"
    by (simp add: headers_get_def int_literal_def unsigned_part_def int_strip_def)
  have h2: "\<not> int_literal ''soon''"
    by (simp add: int_literal_def unsigned_part_def int_strip_def int_isspace_def py_isdigit_def)
  then have h3: "\<not> int_literal (headers_get ?soon ''X-Slack-Request-Timestamp'' [])"
    by (simp add: hdr_ts)
  have h4: "\<not> int_literal (CHR 0x1C # ''12'')"
    by (simp add: int_literal_def unsigned_part_def int_strip_def int_isspace_def py_isdigit_def)
  then have h5: "\<not> int_literal (headers_get ?fs ''X-Slack-Request-Timestamp'' [])"
    by (simp add: hdr_ts)
  show ?thesis
    using h1 h2 h4
      bad_timestamp_raises [OF h1, of example_lib example_config example_world
                              "(example_db ''pending'', [])"]
      bad_timestamp_raises [OF h3, of example_lib example_config example_world
                              "(example_db ''pending'', [])"]
      bad_timestamp_raises [OF h5, of example_lib example_config example_world
                              "(example_db ''pending'', [])"]
    by simp
qed

lemma int_refuses_separators:
  "py_int 4300 (CHR 0x1C # ''12'') = Inl ValueError"
  "py_int 4300 (''12'' @ [CHR 0x1F]) = Inl ValueError"
  "py_int 4300 (CHR 0xA0 # ''+1_2'' @ [CHR 0x85]) = Inr 12"
  by (simp_all add: py_int_def int_strip_def int_isspace_def py_isdigit_def digit_val_def)

text \<open>
  Claim C9, as stated, fails: \<open>"1_0"\<close> is not a string of decimal digits, yet
  \<open>int("1_0")\<close> is 10 and nothing is raised; the timestamp is stale, the check returns
  \<open>False\<close> and the endpoint answers 401.
\<close>

theorem bad_timestamp_counterexample:
  "\<not> decimal_integer_string ''1_0'' \<and>
   headers_get (signed_request ''1_0'' example_body (Inr (example_interaction ''skip_lead'')))
     ''X-Slack-Request-Timestamp'' [] = ''1_0'' \<and>
   verify_slack_signature example_lib example_config (time_time example_world)
     (signed_request ''1_0'' example_body (Inr (example_interaction ''skip_lead''))) = Inr False \<and>
   handle_slack_interactions example_lib example_config example_world
     (signed_request ''1_0'' example_body (Inr (example_interaction ''skip_lead'')))
     (example_db ''pending'', []) =
     (Inr ([(''error'', Str ''Invalid signature'')], 401), (example_db ''pending'', []))"
proof -
  have v: "verify_slack_signature example_lib example_config (time_time example_world)
     (signed_request ''1_0'' example_body (Inr (example_interaction ''skip_lead''))) = Inr False"
    by (simp add: verify_slack_signature_def hdr_ts example_lib_def example_world_def
          float_of_int_def py_int_def int_strip_def int_isspace_def py_isdigit_def digit_val_def)
  show ?thesis
    using v handle_unverified [OF v]
    by (simp add: hdr_ts decimal_integer_string_def unsigned_part_def py_isdigit_def)
qed

section \<open>Properties of the interaction handler\<close>

lemmas prog_defs = then_do_def ret_def py_raise_def try_except_def external_def transaction_def

lemma time_example_world: "time_time example_world = 1700000012"
  by (simp add: example_world_def)

lemma example_db_row:
  "approval_queue (example_db st) ''r1'' = Some \<lparr>req = example_request st, updated_at = 0\<rparr>"
  by (simp add: example_db_def)

lemma example_db_status: "stored_status (example_db st) ''r1'' = Some st"
  by (simp add: stored_status_def example_db_def example_request_def)

lemma example_row_id: "ar_id (req \<lparr>req = example_request st, updated_at = 0\<rparr>) = ''r1''"
  by (simp add: example_request_def)

lemma example_verified:
  "verify_slack_signature example_lib example_config (time_time (example_world\<lparr>apollo_add_to_sequence := a\<rparr>))
     (signed_request ''1700000000'' example_body p) = Inr True"
  by (simp add: time_example_world verify_example_ok)

lemma example_form: "form_payload (signed_request ts b p) = p"
  by (simp add: signed_request_def)

lemma example_action:
  "action_id (example_interaction act) = Some act"
  "request_id (example_interaction act) = Some ''r1''"
  by (simp_all add: example_interaction_def)

text \<open>What a verified skip does to the stored status, and which calls it makes.\<close>

lemma skip_status:
  assumes "verify_slack_signature lb cfg (time_time w) request = Inr True"
      and "form_payload request = Inr p"
      and "action_id p = Some ''skip_lead''"
      and "request_id p = Some i"
      and "approval_queue d i = Some row"
      and "ar_id (req row) = i"
  shows "stored_status (fst (snd (handle_slack_interactions lb cfg w request (d, cs)))) i =
           Some ''skipped''"
  using assms
  by (auto simp add: handle_slack_interactions_def handle_skip_def update_card_rejected_def
        update_message_def get_approval_request_def prog_defs update_approval_status_def
        stored_status_def split: sum.splits prod.splits)

lemma skip_calls:
  assumes "verify_slack_signature lb cfg (time_time w) request = Inr True"
      and "form_payload request = Inr p"
      and "action_id p = Some ''skip_lead''"
  shows "filter is_crm_call (snd (snd (handle_slack_interactions lb cfg w request (d, cs)))) =
           filter is_crm_call cs"
  using assms
  by (auto simp add: handle_slack_interactions_def handle_skip_def update_card_rejected_def
        update_message_def prog_defs split: sum.splits prod.splits option.splits)

text \<open>
  Claim C1, as stated, fails: \<open>handle_skip\<close> does not look at the status it finds. A
  verified skip of a stored request whose status is \<open>approved\<close> leaves it \<open>skipped\<close>.
\<close>

theorem skip_terminal_counterexample:
  "stored_status (example_db ''approved'') ''r1'' = Some ''approved'' \<and>
   stored_status (fst (snd (handle_slack_interactions example_lib example_config example_world
      (signed_request ''1700000000'' example_body (Inr (example_interaction ''skip_lead'')))
      (example_db ''approved'', [])))) ''r1'' = Some ''skipped''"
  using skip_status [OF example_verified [of "apollo_add_to_sequence example_world"]
                        example_form example_action(1) example_action(2)
                        example_db_row example_row_id, of "''approved''" "[]"]
        example_db_status
  by simp

text \<open>
  Claim C1, amended: a verified skip of a stored request, whatever its status, writes the
  status \<open>skipped\<close> (so the status is unchanged only when it was \<open>skipped\<close> already), and
  it adds no call of the CRM to the trace.
\<close>

theorem skip_overwrites_status:
  assumes "verify_slack_signature lb cfg (time_time w) request = Inr True"
      and "form_payload request = Inr p"
      and "action_id p = Some ''skip_lead''"
      and "request_id p = Some i"
      and "approval_queue d i = Some row"
      and "ar_id (req row) = i"
  shows "stored_status (fst (snd (handle_slack_interactions lb cfg w request (d, cs)))) i =
           Some ''skipped'' \<and>
         filter is_crm_call (snd (snd (handle_slack_interactions lb cfg w request (d, cs)))) =
           filter is_crm_call cs"
  using skip_status [OF assms] skip_calls [OF assms(1-3)] by simp

theorem skip_overwrites_status_witness:
  "stored_status (example_db ''skipped'') ''r1'' = Some ''skipped'' \<and>
   stored_status (fst (snd (handle_slack_interactions example_lib example_config example_world
      (signed_request ''1700000000'' example_body (Inr (example_interaction ''skip_lead'')))
      (example_db ''skipped'', [])))) ''r1'' = Some ''skipped'' \<and>
   filter is_crm_call (snd (snd (handle_slack_interactions example_lib example_config example_world
      (signed_request ''1700000000'' example_body (Inr (example_interaction ''skip_lead'')))
      (example_db ''skipped'', [])))) = []"
  using skip_overwrites_status
          [OF example_verified [of "apollo_add_to_sequence example_world"]
              example_form example_action(1) example_action(2)
              example_db_row example_row_id, of "''skipped''" "[]"]
        example_db_status
  by simp






section \<open>The statuses the program writes\<close>

lemma status_inv_init: "status_inv init_db"
  by (simp add: status_inv_def init_db_def)

lemma status_inv_update:
  "status_inv d \<Longrightarrow> written_status st \<Longrightarrow>
   status_inv (snd (update_approval_status now d i st ts))"
  by (auto simp add: status_inv_def update_approval_status_def split: option.splits)

lemma status_inv_save:
  "status_inv d \<Longrightarrow> written_status (status r) \<Longrightarrow>
   status_inv (snd (save_approval_request now sql d r))"
  by (auto simp add: status_inv_def save_approval_request_def)

lemma status_inv_get_cached:
  "status_inv d \<Longrightarrow> status_inv (snd (get_cached_contacts lb cfg now d dn))"
  by (auto simp add: status_inv_def get_cached_contacts_def split: option.splits sum.splits)

lemma status_inv_cache:
  "status_inv d \<Longrightarrow> status_inv (snd (cache_contacts lb now d dn cs))"
  by (auto simp add: status_inv_def cache_contacts_def)

lemma update_approval_email_status:
  "stored_status (snd (update_approval_email now d rid subject body)) i = stored_status d i"
  by (simp add: update_approval_email_def stored_status_def split: option.splits)

lemma preserves_ret: "preserves (ret x)"
  by (simp add: preserves_def ret_def)

lemma preserves_raise: "preserves (py_raise e)"
  by (simp add: preserves_def py_raise_def)

lemma preserves_pure: "preserves (\<lambda>s. (r, s))"
  by (simp add: preserves_def)

lemma preserves_external: "preserves (external c a)"
  by (simp add: preserves_def external_def)

lemma preserves_transaction:
  "(\<And>d. status_inv d \<Longrightarrow> status_inv (snd (f d))) \<Longrightarrow> preserves (transaction f)"
  unfolding preserves_def transaction_def
  by (auto split: prod.splits) (metis snd_conv)

lemma preserves_then_do:
  "preserves m \<Longrightarrow> (\<And>x. preserves (f x)) \<Longrightarrow> preserves (then_do m f)"
  unfolding preserves_def then_do_def
  by (auto split: prod.splits sum.splits) (metis fst_conv snd_conv)+

lemma preserves_try_except:
  "preserves m \<Longrightarrow> (\<And>e. preserves (h e)) \<Longrightarrow> preserves (try_except m h)"
  unfolding preserves_def try_except_def
  by (auto split: prod.splits sum.splits) (metis fst_conv snd_conv)+

lemmas preserves_intros =
  preserves_ret preserves_raise preserves_pure preserves_external preserves_transaction
  preserves_then_do preserves_try_except

lemma written_status_literals:
  "written_status ''pending''" "written_status ''approved''" "written_status ''skipped''"
  "\<not> written_status ''rejected''"
  by (simp_all add: written_status_def)

lemma preserves_update_message: "preserves (update_message w c t b)"
  unfolding update_message_def by (intro preserves_intros) (simp add: preserves_intros)

lemma preserves_handle_skip: "preserves (handle_skip w r c t)"
  unfolding handle_skip_def update_card_rejected_def
  by (intro preserves_intros preserves_update_message status_inv_update written_status_literals)

lemma preserves_handle_approve: "preserves (handle_approve cfg w r c t)"
  unfolding handle_approve_def update_card_approved_def create_contact_def add_to_sequence_def Let_def
  by (intro preserves_intros preserves_update_message status_inv_update written_status_literals)
     (simp_all add: preserves_intros)

lemma preserves_handle_slack_interactions: "preserves (handle_slack_interactions lb cfg w request)"
  unfolding handle_slack_interactions_def handle_edit_def handle_regenerate_def
  by (intro preserves_intros)
     (auto intro!: preserves_intros preserves_handle_skip preserves_handle_approve
           split: option.splits)

lemma preserves_search_people: "preserves (search_people lb cfg w dn)"
  unfolding search_people_def
  by (intro preserves_intros)
     (auto intro!: preserves_intros status_inv_get_cached status_inv_cache
           split: option.splits list.splits)

lemma preserves_generate: "preserves (generate_personalized_email cfg w p c)"
  unfolding generate_personalized_email_def
  by (auto intro!: preserves_intros)

lemma preserves_handle_reporadar_webhook: "preserves (handle_reporadar_webhook lb cfg w parsed)"
  unfolding handle_reporadar_webhook_def post_approval_card_def Let_def
  by (intro preserves_intros)
     (auto intro!: preserves_intros preserves_search_people preserves_generate
                   status_inv_save status_inv_update written_status_literals
           split: sum.splits list.splits prod.splits)

lemma preservesD: "preserves m \<Longrightarrow> status_inv (fst s) \<Longrightarrow> status_inv (fst (snd (m s)))"
  unfolding preserves_def by blast

lemma status_inv_run_event:
  assumes "status_inv (fst s)"
  shows "status_inv (fst (run_event lb cfg ev s))"
proof (cases ev)
  case (Webhook w parsed)
  then show ?thesis
    using preservesD [OF preserves_handle_reporadar_webhook assms] by simp
next
  case (Interaction w request)
  then show ?thesis
    using preservesD [OF preserves_handle_slack_interactions assms] by simp
qed

lemma status_inv_run_events:
  "status_inv (fst s) \<Longrightarrow> status_inv (fst (run_events lb cfg evs s))"
  by (induction evs arbitrary: s) (simp_all add: status_inv_run_event)

text \<open>
  Claim C10: in every execution of the program from the empty store, whatever the
  requests and the answers of the external services, every stored request has the status
  \<open>pending\<close>, \<open>approved\<close> or \<open>skipped\<close>: the status \<open>rejected\<close> is never in the store.
\<close>

theorem rejected_never_written:
  assumes "stored_status (fst (run_events lb cfg evs (init_db, []))) i = Some st"
  shows "written_status st \<and> st \<noteq> ''rejected''"
proof -
  have "status_inv (fst (run_events lb cfg evs (init_db, [])))"
    using status_inv_run_events [of "(init_db, [])"] by (simp add: status_inv_init)
  then have "written_status st"
    using assms by (auto simp add: status_inv_def stored_status_def)
  then show ?thesis
    using written_status_literals(4) by auto
qed

lemma parse_example: "parse_email_response ''SUBJECT: Hello'' = (''Hello'', ''SUBJECT: Hello'')"
  by (simp add: parse_email_response_def newline_def startswith_def py_strip_def py_isspace_def)

lemma webhook_example:
  "stored_status
     (fst (run_events example_lib example_config [Webhook example_world (Inr example_payload)]
             (init_db, []))) ''r1'' = Some ''pending''"
  by (simp add: handle_reporadar_webhook_def search_people_def generate_personalized_email_def
        post_approval_card_def prog_defs get_cached_contacts_def cache_contacts_def
        save_approval_request_def update_approval_status_def stored_status_def init_db_def
        example_world_def example_config_def example_payload_def example_contact_def
        example_lib_def parse_example truthy_def Let_def)

theorem rejected_never_written_witness:
  "stored_status
     (fst (run_events example_lib example_config [Webhook example_world (Inr example_payload)]
             (init_db, []))) ''r1'' = Some ''pending'' \<and>
   written_status ''pending'' \<and> ''pending'' \<noteq> ''rejected''"
  using rejected_never_written [OF webhook_example] webhook_example by simp

section \<open>Two deliveries of one approval\<close>

lemmas step_defs = create_contact_def add_to_sequence_def update_card_approved_def
  update_message_def prog_defs








lemma single_delivery_is_handler:
  assumes "verify_slack_signature lb cfg (time_time w) request = Inr True"
      and "form_payload request = Inr p"
      and "action_id p = Some ''approve_lead''"
  shows "run_schedule cfg w w2 p [True, True, True, True, True] (A_Start, pc2, s) =
           (A_Done (projr (fst (handle_slack_interactions lb cfg w request s))), pc2,
            snd (handle_slack_interactions lb cfg w request s))"
  using assms
  by (cases s)
     (auto simp add: handle_slack_interactions_def handle_approve_def step_defs Let_def
           split: option.splits sum.splits prod.splits)






text \<open>
  When the contact-creation call raises in both deliveries, both answer 500 before the
  status update: two calls were made and the request is still pending.
\<close>

lemma both_creations_raise:
  "fst (run_schedule example_config
          (example_world\<lparr>apollo_create_contact := Inl (External False)\<rparr>)
          (example_world\<lparr>apollo_create_contact := Inl (External False)\<rparr>)
          (example_interaction ''approve_lead'') [True, False, True, False]
          (A_Start, A_Start, (example_db ''pending'', []))) =
     A_Done ([(''error'', ExnText (External False))], 500)"
  "create_contact_calls
     (snd (snd (run_schedule example_config
          (example_world\<lparr>apollo_create_contact := Inl (External False)\<rparr>)
          (example_world\<lparr>apollo_create_contact := Inl (External False)\<rparr>)
          (example_interaction ''approve_lead'') [True, False, True, False]
          (A_Start, A_Start, (example_db ''pending'', []))))) = 2"
  "stored_status
     (fst (snd (snd (run_schedule example_config
          (example_world\<lparr>apollo_create_contact := Inl (External False)\<rparr>)
          (example_world\<lparr>apollo_create_contact := Inl (External False)\<rparr>)
          (example_interaction ''approve_lead'') [True, False, True, False]
          (A_Start, A_Start, (example_db ''pending'', [])))))) ''r1'' = Some ''pending''"
  by (simp_all add: step_defs get_approval_request_def example_db_def example_world_def
        example_interaction_def example_request_def create_contact_calls_def stored_status_def)




end
